theory Spec2Isabelle
  imports Main
begin

section \<open>Data model\<close>

text \<open>
  The resource is a Go program (package \<open>main\<close> under \<open>gerrit/\<close>). Go strings are byte
  strings and are modelled as \<open>string\<close>; Go's \<open>int\<close> values are printed in decimal only and
  are modelled as \<open>int\<close>. A Go function returning \<open>(T, error)\<close> becomes a function into
  \<open>error + T\<close>; one returning only \<open>error\<close> becomes a function into \<open>error option\<close>, where
  \<open>None\<close> is Go's \<open>nil\<close>.
\<close>

text \<open>
  Errors. The first group is produced by in.go and out.go themselves (each
  \<open>fmt.Errorf\<close> / \<open>errors.New\<close> is one constructor, with the wrapped error or the formatted
  operands as arguments); \<open>External\<close> stands for an error value handed back by a collaborator
  (the operating system, the git process, the Gerrit client, the URL parser).
\<close>

datatype error =
    External string
  | NoFetchInfo string
  | CouldNotResolveFetchArgs string error
  | ErrorSettingUpGerritClient error
  | ErrorGettingGitConfigArgs error
  | GitFailed error
  | ErrorWriting string error
  | ErrorReading string error
  | ParamRepositoryRequired
  | NoFallbackMessage
  | ErrorSendingReview error

text \<open>in.go, lines 43-46.\<close>

record inParams =
  FetchProtocol :: string
  FetchUrl :: string

text \<open>
  Modelled from the spec: the vendored package \<open>golang.org/x/build/gerrit\<close> that declares
  \<open>FetchInfo\<close>, \<open>AccountInfo\<close>, \<open>RevisionInfo\<close> and \<open>ChangeInfo\<close> is missing. The spec's data
  model gives a revision a patch-set number, an optional uploader (name and email), a ref
  path and a mapping from transport-protocol name to fetch endpoint (URL and ref); a change
  has a project, a subject and a numeric change number. The fields are the ones in.go and the
  test fixture \<open>testBuildChange\<close> use. \<open>FetchInfo.Ref\<close> is named \<open>FetchRef\<close> here, because
  \<open>RevisionInfo.Ref\<close> already takes the name \<open>Ref\<close>.
\<close>

record FetchInfo =
  URL :: string
  FetchRef :: string

record AccountInfo =
  Name :: string
  Email :: string

record RevisionInfo =
  PatchSetNumber :: int
  Uploader :: "AccountInfo option"
  Ref :: string
  Fetch :: "string \<rightharpoonup> FetchInfo"

record ChangeInfo =
  ID :: string
  ChangeNumber :: int
  Project :: string
  Subject :: string

section \<open>Fetch-argument resolution (in.go, lines 36-38 and 147-169)\<close>

definition defaultFetchProtocols :: "string list" where
  "defaultFetchProtocols = [''http'', ''anonymous http'']"

text \<open>
  The Go variable \<open>rev\<close> is written \<open>rev'\<close>, since \<open>rev\<close> is list reversal in HOL.

  The loop of lines 153-158: the first protocol of the list that is a key of the mapping
  replaces \<open>fetchProtocol\<close> and ends the loop; when the list is exhausted \<open>fetchProtocol\<close>
  keeps the value it had before the loop.
\<close>

fun scanProtocols :: "(string \<rightharpoonup> FetchInfo) \<Rightarrow> string list \<Rightarrow> string \<Rightarrow> string" where
  "scanProtocols fetch [] fetchProtocol = fetchProtocol"
| "scanProtocols fetch (proto # protos) fetchProtocol =
     (case fetch proto of
        Some _ \<Rightarrow> proto
      | None \<Rightarrow> scanProtocols fetch protos fetchProtocol)"

text \<open>
  The value of \<open>fetchProtocol\<close> at line 160, for an empty \<open>params.FetchUrl\<close>.
\<close>

definition selectProtocol :: "inParams \<Rightarrow> RevisionInfo \<Rightarrow> string" where
  "selectProtocol params rev' =
     (let fetchProtocol = FetchProtocol params in
      if fetchProtocol = '''' then scanProtocols (Fetch rev') defaultFetchProtocols fetchProtocol
      else fetchProtocol)"

text \<open>
  On the error path Go returns an empty slice next to the error; the caller drops it, and so
  does the model.
\<close>

definition resolveFetchArgs :: "inParams \<Rightarrow> RevisionInfo \<Rightarrow> error + string list" where
  "resolveFetchArgs params rev' =
     (let fetchUrl = FetchUrl params; fetchRef = Ref rev' in
      if fetchUrl = '''' then
        (let fetchProtocol = selectProtocol params rev' in
         case Fetch rev' fetchProtocol of
           Some fetchInfo \<Rightarrow> Inr [''fetch'', URL fetchInfo, FetchRef fetchInfo]
         | None \<Rightarrow> Inl (NoFetchInfo fetchProtocol))
      else Inr [''fetch'', fetchUrl, fetchRef])"

section \<open>Library functions used by in.go and out.go\<close>

text \<open>
  \<open>fmt.Sprintf("%d", n)\<close>: the decimal digits of \<open>n\<close>, most significant first, after a
  minus sign when \<open>n\<close> is negative.
\<close>

definition digit :: "nat \<Rightarrow> char" where
  "digit d = ''0123456789'' ! d"

fun showNat :: "nat \<Rightarrow> string" where
  "showNat n = (if n < 10 then [digit n] else showNat (n div 10) @ [digit (n mod 10)])"

declare showNat.simps [simp del]

definition showInt :: "int \<Rightarrow> string" where
  "showInt i = (if i < 0 then CHR ''-'' # showNat (nat (- i)) else showNat (nat i))"

text \<open>
  Package \<open>path\<close> (and \<open>path/filepath\<close> on the Unix systems the resource runs on), after the
  library's documentation. \<open>Clean\<close> drops empty and \<open>.\<close> elements, lets a \<open>..\<close> element
  remove the element before it, drops \<open>..\<close> at the start of a rooted path, keeps it at the
  start of a relative one, and returns \<open>.\<close> for an empty result. \<open>Join\<close> joins the non-empty
  elements with slashes and cleans the result; it returns the empty string when there is
  nothing to join. \<open>Dir\<close> cleans what precedes the last element.
\<close>

fun splitSlash :: "string \<Rightarrow> string list" where
  "splitSlash [] = [[]]"
| "splitSlash (c # cs) =
     (if c = CHR ''/'' then [] # splitSlash cs
      else (case splitSlash cs of
              [] \<Rightarrow> [[c]]
            | e # es \<Rightarrow> (c # e) # es))"

fun joinSlash :: "string list \<Rightarrow> string" where
  "joinSlash [] = []"
| "joinSlash [e] = e"
| "joinSlash (e # es) = e @ CHR ''/'' # joinSlash es"

fun cleanElems :: "bool \<Rightarrow> string list \<Rightarrow> string list \<Rightarrow> string list" where
  "cleanElems rooted out [] = out"
| "cleanElems rooted out (e # es) =
     (if e = [] \<or> e = ''.'' then cleanElems rooted out es
      else if e = ''..'' then
        (if out \<noteq> [] \<and> last out \<noteq> ''..'' then cleanElems rooted (butlast out) es
         else if rooted then cleanElems rooted out es
         else cleanElems rooted (out @ [''..'']) es)
      else cleanElems rooted (out @ [e]) es)"

definition Clean :: "string \<Rightarrow> string" where
  "Clean path =
     (case path of
        [] \<Rightarrow> ''.''
      | c # _ \<Rightarrow>
          (let rooted = (c = CHR ''/'');
               out = cleanElems rooted [] (splitSlash path)
           in if rooted then CHR ''/'' # joinSlash out
              else if out = [] then ''.''
              else joinSlash out))"

definition Join :: "string list \<Rightarrow> string" where
  "Join elem =
     (case filter (\<lambda>e. e \<noteq> []) elem of
        [] \<Rightarrow> []
      | e # es \<Rightarrow> Clean (joinSlash (e # es)))"

definition Dir :: "string \<Rightarrow> string" where
  "Dir path = Clean (rev (dropWhile (\<lambda>c. c \<noteq> CHR ''/'') (rev path)))"


text \<open>
  Package \<open>net/url\<close>. A parsed URL is a structure whose \<open>Path\<close> field buildRevisionLink
  replaces; the parser (\<open>url.Parse\<close>) and the printer (\<open>URL.String\<close>) are not part of the
  repository and are taken as parameters.
\<close>

record net_url =
  Scheme :: string
  Opaque :: string
  Host :: string
  Path :: string
  RawPath :: string
  RawQuery :: string
  Fragment :: string

record urlpkg =
  Parse :: "string \<Rightarrow> error + net_url"
  String :: "net_url \<Rightarrow> string"

section \<open>Revision link (in.go, lines 186-193)\<close>

text \<open>
  Modelled from the spec: the declaration of \<open>Source\<close> is missing. in.go reads its \<open>Url\<close>
  field (the base service URL) and the tests set \<open>Cookies\<close> (the optional cookie-jar
  content).
\<close>

record Source =
  Url :: string
  Cookies :: string

definition buildRevisionLink :: "urlpkg \<Rightarrow> Source \<Rightarrow> int \<Rightarrow> int \<Rightarrow> error + string" where
  "buildRevisionLink U src changeNum psNum =
     (case Parse U (Url src) of
        Inl err \<Rightarrow> Inl err
      | Inr srcUrl \<Rightarrow>
          Inr (String U
            (srcUrl\<lparr>Path := Join [Path srcUrl,
                ''c/'' @ showInt changeNum @ ''/'' @ showInt psNum]\<rparr>)))"

section \<open>Versions and the marker file\<close>

text \<open>
  Modelled from the spec: the declaration of \<open>Version\<close> is missing; in.go, out.go and the
  tests use its fields \<open>ChangeId\<close>, \<open>Revision\<close> and \<open>Created\<close>. The spec: a Version has a
  change identifier (an opaque string), a revision identifier and a creation timestamp
  (here a number of seconds).
\<close>

record Version =
  ChangeId :: string
  Revision :: string
  Created :: int

text \<open>
  Modelled from the spec: the method \<open>Version.Equal\<close> is missing; only the tests call it.
  The spec: equality is defined by change identifier and revision identifier only.
\<close>

definition Equal :: "Version \<Rightarrow> Version \<Rightarrow> bool" where
  "Equal v other = (ChangeId v = ChangeId other \<and> Revision v = Revision other)"

text \<open>
  Modelled from the spec: the encoding of the marker file is missing with the methods that
  write and read it. The spec: the marker file is a small JSON document recording the
  Version. The document is modelled as a JSON value (its text form is not), an object with
  one member per field, named as the field; a document of another shape is not a version
  document.
\<close>

datatype json =
    JNull
  | JBool bool
  | JNumber int
  | JString string
  | JArray "json list"
  | JObject "(string \<times> json) list"

definition versionToJSON :: "Version \<Rightarrow> json" where
  "versionToJSON v =
     JObject [(''ChangeId'', JString (ChangeId v)),
              (''Revision'', JString (Revision v)),
              (''Created'', JNumber (Created v))]"

definition versionFromJSON :: "json \<Rightarrow> error + Version" where
  "versionFromJSON doc =
     (case doc of
        JObject members \<Rightarrow>
          (case (map_of members ''ChangeId'', map_of members ''Revision'',
                 map_of members ''Created'') of
             (Some (JString c), Some (JString r), Some (JNumber t)) \<Rightarrow>
               Inr \<lparr>ChangeId = c, Revision = r, Created = t\<rparr>
           | _ \<Rightarrow> Inl (External ''not a version document''))
      | _ \<Rightarrow> Inl (External ''not a version document''))"

section \<open>The world outside the program\<close>

text \<open>
  What the program writes to its log (each \<open>log.Printf\<close> of in.go and out.go is one
  constructor, carrying the operands of the format).
\<close>

datatype logmsg =
    LogGit "string list"
  | LogGitOutput string
  | LogErrorBuildingRevisionLink error
  | LogErrorAddingExclude string string error
  | LogErrorReadingMessageFile string error
  | LogUsingFallbackMessage string

text \<open>
  Modelled from the spec: \<open>gerrit.ReviewInput\<close> of the vendored package is missing; a
  review submission carries a message and label scores. Its fields \<open>Message\<close> and
  \<open>Labels\<close> are named \<open>ReviewMessage\<close> and \<open>ReviewLabels\<close> here, because outParams has
  fields of the same names.
\<close>

record ReviewInput =
  ReviewMessage :: string
  ReviewLabels :: "string \<rightharpoonup> int"

text \<open>
  The effects of one invocation, in the order they happen: the git processes run with their
  results, the log, the JSON documents on disk, the text appended to files, the response
  metadata and version handed to the request object, the review submissions sent to the
  review service, and the number of times the authentication manager was cleaned up.
\<close>

record world =
  gitLog :: "(string list \<times> error option) list"
  logged :: "logmsg list"
  files :: "string \<rightharpoonup> json"
  appended :: "(string \<times> string) list"
  responseMetadata :: "(string \<times> string) list"
  responseVersion :: "Version option"
  reviews :: "(string \<times> string \<times> ReviewInput) list"
  cleanups :: nat

datatype client = Client Source

text \<open>
  The collaborators the two operations call and whose code is not part of the repository's
  sources at hand: the Gerrit client, the authentication manager, the git process (whose
  result may depend on the git commands run before it) and the operating system. Each is a
  parameter, so that every theorem holds for every behaviour of the collaborator.
\<close>

record sys =
  url :: urlpkg
  gerritClient :: "Source \<Rightarrow> error + client"
  getVersionChangeRevision :: "client \<Rightarrow> Version \<Rightarrow> error + (ChangeInfo \<times> RevisionInfo)"
  gitConfigArgs :: "Source \<Rightarrow> error + string list"
  execGit :: "string list list \<Rightarrow> string list \<Rightarrow> string \<times> error option"
  Create :: "string \<Rightarrow> error option"
  MkdirAll :: "string \<Rightarrow> error option"
  OpenFile :: "string \<Rightarrow> error option"
  Fprintf :: "string \<Rightarrow> string \<Rightarrow> error option"
  ReadFile :: "string \<Rightarrow> error + string"
  SetReview :: "client \<Rightarrow> string \<Rightarrow> string \<Rightarrow> ReviewInput \<Rightarrow> error option"

text \<open>
  Modelled from the spec: the methods \<open>Version.WriteToFile\<close> and \<open>Version.ReadFromFile\<close>
  are missing; in.go calls the first and out.go the second. The spec: the marker file is
  written into the working directory after checkout and records the resolved Version; an
  unreadable marker file is a failure. \<open>WriteToFile\<close> writes the document of the Version
  to the path, unless the operating system refuses the file; \<open>ReadFromFile\<close> reads the
  document at the path back into a Version and fails when there is no version document.
\<close>

definition WriteToFile :: "sys \<Rightarrow> Version \<Rightarrow> string \<Rightarrow> world \<Rightarrow> error option \<times> world" where
  "WriteToFile s v path w =
     (case Create s path of
        Some err \<Rightarrow> (Some err, w)
      | None \<Rightarrow> (None, w\<lparr>files := (files w)(path \<mapsto> versionToJSON v)\<rparr>))"

definition ReadFromFile :: "string \<Rightarrow> world \<Rightarrow> error + Version" where
  "ReadFromFile path w =
     (case files w path of
        None \<Rightarrow> Inl (External ''no such file'')
      | Some doc \<Rightarrow> versionFromJSON doc)"

text \<open>
  Modelled from the spec: the request objects of package \<open>internal\<close> are missing. A request
  decodes into the source, version and parameters (or fails), and names its target
  directory; \<open>AddResponseMetadata\<close> and \<open>SetResponseVersion\<close> record what the response will
  carry.
\<close>

record InRequest =
  DecodeIn :: "error + (Source \<times> Version \<times> inParams)"
  TargetDirIn :: string

definition AddResponseMetadata :: "string \<Rightarrow> string \<Rightarrow> world \<Rightarrow> world" where
  "AddResponseMetadata k v w = w\<lparr>responseMetadata := responseMetadata w @ [(k, v)]\<rparr>"

definition SetResponseVersion :: "Version \<Rightarrow> world \<Rightarrow> world" where
  "SetResponseVersion v w = w\<lparr>responseVersion := Some v\<rparr>"

definition logPrintf :: "logmsg \<Rightarrow> world \<Rightarrow> world" where
  "logPrintf m w = w\<lparr>logged := logged w @ [m]\<rparr>"

definition cleanup :: "world \<Rightarrow> world" where
  "cleanup w = w\<lparr>cleanups := Suc (cleanups w)\<rparr>"

section \<open>The in operation (in.go, lines 32-34, 52-145 and 171-180)\<close>

definition gerritVersionFilename :: string where
  "gerritVersionFilename = ''.gerrit_version.json''"

text \<open>
  \<open>git\<close> logs the arguments, runs the git process through \<open>execGit\<close>, logs its output and
  wraps its error. The model records every run and its result in \<open>gitLog\<close>.
\<close>

definition git :: "sys \<Rightarrow> string \<Rightarrow> string list \<Rightarrow> world \<Rightarrow> error option \<times> world" where
  "git s dir args w =
     (let gitArgs = [''-C'', dir] @ args;
          w1 = logPrintf (LogGit gitArgs) w
      in case execGit s (map fst (gitLog w1)) gitArgs of
           (out, err) \<Rightarrow>
             (let w2 = w1\<lparr>gitLog := gitLog w1 @ [(gitArgs, err)]\<rparr>;
                  w3 = logPrintf (LogGitOutput out) w2
              in (case err of
                    Some e \<Rightarrow> Some (GitFailed e)
                  | None \<Rightarrow> None,
                  w3)))"

text \<open>Lines 82-108: prepare the destination repository and check the revision out.\<close>

definition inCheckout ::
    "sys \<Rightarrow> string \<Rightarrow> Source \<Rightarrow> string list \<Rightarrow> world \<Rightarrow> error option \<times> world" where
  "inCheckout s dir src fetchArgs w =
     (case git s dir [''init''] w of
        (Some err, w1) \<Rightarrow> (Some err, w1)
      | (None, w1) \<Rightarrow>
     (case git s dir [''config'', ''color.ui'', ''always''] w1 of
        (Some err, w2) \<Rightarrow> (Some err, w2)
      | (None, w2) \<Rightarrow>
     (case gitConfigArgs s src of
        Inl err \<Rightarrow> (Some (ErrorGettingGitConfigArgs err), w2)
      | Inr configArgs \<Rightarrow>
     (case git s dir configArgs w2 of
        (Some err, w3) \<Rightarrow> (Some err, w3)
      | (None, w3) \<Rightarrow>
     (case git s dir fetchArgs w3 of
        (Some err, w4) \<Rightarrow> (Some err, w4)
      | (None, w4) \<Rightarrow> git s dir [''checkout'', ''FETCH_HEAD''] w4)))))"

text \<open>Lines 110-121: the response metadata; a link that cannot be built is only logged.\<close>

definition inMetadata :: "sys \<Rightarrow> Source \<Rightarrow> ChangeInfo \<Rightarrow> RevisionInfo \<Rightarrow> world \<Rightarrow> world" where
  "inMetadata s src change rev' w =
     (let w1 = AddResponseMetadata ''project'' (Project change) w;
          w2 = AddResponseMetadata ''subject'' (Subject change) w1;
          w3 = (case Uploader rev' of
                  Some uploader \<Rightarrow>
                    AddResponseMetadata ''uploader''
                      (Name uploader @ '' <'' @ Email uploader @ ''>'') w2
                | None \<Rightarrow> w2)
      in case buildRevisionLink (url s) src (ChangeNumber change) (PatchSetNumber rev') of
           Inr link \<Rightarrow> AddResponseMetadata ''link'' link w3
         | Inl err \<Rightarrow> logPrintf (LogErrorBuildingRevisionLink err) w3)"

text \<open>
  Lines 130-142. The \<open>excludeErr\<close> of line 132 is the one tested at line 140. Line 134
  declares \<open>f\<close> and a second \<open>excludeErr\<close> (with \<open>:=\<close>, in the block of the \<open>if\<close>), and
  line 137 assigns to that second variable, which goes out of scope at line 139: the
  results of \<open>os.OpenFile\<close> and \<open>fmt.Fprintf\<close> decide what is appended and nothing else.
\<close>

definition inExclude :: "sys \<Rightarrow> string \<Rightarrow> string \<Rightarrow> world \<Rightarrow> world" where
  "inExclude s dir gerritVersionPath w =
     (let excludePath = Join [dir, ''.git'', ''info'', ''exclude''];
          excludeErr = MkdirAll s (Dir excludePath);
          w1 = (case excludeErr of
                  Some _ \<Rightarrow> w
                | None \<Rightarrow>
                    (case OpenFile s excludePath of
                       Some _ \<Rightarrow> w
                     | None \<Rightarrow>
                         (let line = [CHR 0x0A] @ ''/'' @ gerritVersionFilename @ [CHR 0x0A]
                          in case Fprintf s excludePath line of
                               Some _ \<Rightarrow> w
                             | None \<Rightarrow> w\<lparr>appended := appended w @ [(excludePath, line)]\<rparr>)))
      in case excludeErr of
           Some err \<Rightarrow> logPrintf (LogErrorAddingExclude gerritVersionPath excludePath err) w1
         | None \<Rightarrow> w1)"

text \<open>Lines 123-144: write the marker file, then keep it out of the repository's status.\<close>

definition inMarker :: "sys \<Rightarrow> string \<Rightarrow> Version \<Rightarrow> world \<Rightarrow> error option \<times> world" where
  "inMarker s dir ver w =
     (let gerritVersionPath = Join [dir, gerritVersionFilename]
      in case WriteToFile s ver gerritVersionPath w of
           (Some err, w1) \<Rightarrow> (Some (ErrorWriting gerritVersionPath err), w1)
         | (None, w1) \<Rightarrow> (None, inExclude s dir gerritVersionPath w1))"

text \<open>Lines 61-80 and the three blocks above, without the deferred clean-up.\<close>

definition inBody ::
    "sys \<Rightarrow> InRequest \<Rightarrow> Source \<Rightarrow> Version \<Rightarrow> inParams \<Rightarrow> world \<Rightarrow> error option \<times> world" where
  "inBody s req src ver params w =
     (case gerritClient s src of
        Inl err \<Rightarrow> (Some (ErrorSettingUpGerritClient err), w)
      | Inr c \<Rightarrow>
     (case getVersionChangeRevision s c ver of
        Inl err \<Rightarrow> (Some err, w)
      | Inr (change, rev') \<Rightarrow>
     (case resolveFetchArgs params rev' of
        Inl err \<Rightarrow> (Some (CouldNotResolveFetchArgs (ID change) err), w)
      | Inr fetchArgs \<Rightarrow>
     (case inCheckout s (TargetDirIn req) src fetchArgs w of
        (Some err, w1) \<Rightarrow> (Some err, w1)
      | (None, w1) \<Rightarrow>
          inMarker s (TargetDirIn req) ver (inMetadata s src change rev' w1)))))"

text \<open>
  The function \<open>in\<close> (the name is a keyword of Isabelle, hence \<open>inFunc\<close>): decode the
  request, run the body, and run the deferred \<open>authMan.cleanup()\<close> on every return that
  follows line 62.
\<close>

definition inFunc :: "sys \<Rightarrow> InRequest \<Rightarrow> world \<Rightarrow> error option \<times> world" where
  "inFunc s req w =
     (case DecodeIn req of
        Inl err \<Rightarrow> (Some err, w)
      | Inr (src, ver, params) \<Rightarrow>
          (case inBody s req src ver params w of
             (result, w') \<Rightarrow> (result, cleanup w')))"

section \<open>The out operation (out.go, lines 30-35 and 41-100)\<close>

record outParams =
  Repository :: string
  Message :: string
  MessageFile :: string
  Labels :: "string \<rightharpoonup> int"

record OutRequest =
  DecodeOut :: "error + (Source \<times> outParams)"
  TargetDirOut :: string

text \<open>Lines 65-81: the review message, from the message file or from the parameter.\<close>

definition outMessage :: "sys \<Rightarrow> OutRequest \<Rightarrow> outParams \<Rightarrow> world \<Rightarrow> (error + string) \<times> world" where
  "outMessage s req params w =
     (let message = Message params;
          messageFile = MessageFile params
      in if messageFile \<noteq> [] then
           (case ReadFile s (Join [TargetDirOut req, messageFile]) of
              Inr messageBytes \<Rightarrow> (Inr messageBytes, w)
            | Inl err \<Rightarrow>
                (let w1 = logPrintf (LogErrorReadingMessageFile messageFile err) w
                 in if message = [] then (Inl NoFallbackMessage, w1)
                    else (Inr message, logPrintf (LogUsingFallbackMessage message) w1)))
         else (Inr message, w))"

text \<open>Lines 83-99: send the review; \<open>reviews\<close> records every submission made.\<close>

definition outSendReview ::
    "sys \<Rightarrow> Source \<Rightarrow> Version \<Rightarrow> outParams \<Rightarrow> string \<Rightarrow> world \<Rightarrow> error option \<times> world" where
  "outSendReview s src ver params message w =
     (case gerritClient s src of
        Inl err \<Rightarrow> (Some (ErrorSettingUpGerritClient err), w)
      | Inr c \<Rightarrow>
          (let input = \<lparr>ReviewMessage = message, ReviewLabels = Labels params\<rparr>;
               w1 = w\<lparr>reviews := reviews w @ [(ChangeId ver, Revision ver, input)]\<rparr>
           in case SetReview s c (ChangeId ver) (Revision ver) input of
                Some err \<Rightarrow> (Some (ErrorSendingReview err), w1)
              | None \<Rightarrow> (None, w1)))"

definition outBody ::
    "sys \<Rightarrow> OutRequest \<Rightarrow> Source \<Rightarrow> outParams \<Rightarrow> world \<Rightarrow> error option \<times> world" where
  "outBody s req src params w =
     (if Repository params = [] then (Some ParamRepositoryRequired, w)
      else
        (let gerritVersionPath =
               Join [TargetDirOut req, Repository params, gerritVersionFilename]
         in case ReadFromFile gerritVersionPath w of
              Inl err \<Rightarrow> (Some (ErrorReading gerritVersionPath err), w)
            | Inr ver \<Rightarrow>
                (case outMessage s req params (SetResponseVersion ver w) of
                   (Inl err, w1) \<Rightarrow> (Some err, w1)
                 | (Inr message, w1) \<Rightarrow> outSendReview s src ver params message w1)))"

definition outFunc :: "sys \<Rightarrow> OutRequest \<Rightarrow> world \<Rightarrow> error option \<times> world" where
  "outFunc s req w =
     (case DecodeOut req of
        Inl err \<Rightarrow> (Some err, w)
      | Inr (src, params) \<Rightarrow>
          (case outBody s req src params w of
             (result, w') \<Rightarrow> (result, cleanup w')))"

section \<open>The test harness (in_test.go and the shared test file)\<close>

text \<open>
  The tests run \<open>in\<close> against a mock git (\<open>testExecGit\<close>, which succeeds with no output)
  and a mock review service that answers with \<open>testBuildChange\<close> (here always change 1
  and its first revision, the ones \<open>testInVersion\<close> names). The same harness gives
  the concrete inputs of the examples below. The service's address is chosen at run time in
  the tests and is fixed here. \<open>testParse\<close> and \<open>testString\<close> stand in for \<open>net/url\<close> on
  URLs of the form \<open>scheme://host/path\<close>, the only ones the examples use.
\<close>

definition testGerritUrl :: string where
  "testGerritUrl = ''http://localhost:8080''"

definition testInVersion :: Version where
  "testInVersion = \<lparr>ChangeId = ''Itestchange1'', Revision = ''deadbeef0'', Created = 12345\<rparr>"

definition testExecGit :: "string list list \<Rightarrow> string list \<Rightarrow> string \<times> error option" where
  "testExecGit history args = ([], None)"

definition testRevision :: "int \<Rightarrow> int \<Rightarrow> RevisionInfo" where
  "testRevision testNumber i =
     (let ref = ''refs/changes/1/'' @ showInt testNumber @ ''/'' @ showInt (i + 1)
      in \<lparr>PatchSetNumber = i + 1,
          Uploader = Some \<lparr>Name = ''Testy McTestface'', Email = ''testy@example.com''\<rparr>,
          Ref = ref,
          Fetch = [''http'' \<mapsto> \<lparr>URL = testGerritUrl @ ''/testproject.git'', FetchRef = ref\<rparr>,
                   ''fake'' \<mapsto> \<lparr>URL = ''fake://example.com'', FetchRef = ''fake/ref''\<rparr>]\<rparr>)"

definition testBuildChange :: "int \<Rightarrow> ChangeInfo" where
  "testBuildChange testNumber =
     \<lparr>ID = ''testproject~testbranch~Itestchange'' @ showInt testNumber,
      ChangeNumber = testNumber,
      Project = ''testproject'',
      Subject = ''Test Subject''\<rparr>"

definition testParse :: "string \<Rightarrow> error + net_url" where
  "testParse rawURL =
     (let scheme = takeWhile (\<lambda>c. c \<noteq> CHR '':'') rawURL;
          rest = dropWhile (\<lambda>c. c \<noteq> CHR '':'') rawURL
      in if scheme \<noteq> [] \<and> take 3 rest = ''://'' then
           Inr \<lparr>Scheme = scheme, Opaque = [],
                Host = takeWhile (\<lambda>c. c \<noteq> CHR ''/'') (drop 3 rest),
                Path = dropWhile (\<lambda>c. c \<noteq> CHR ''/'') (drop 3 rest),
                RawPath = [], RawQuery = [], Fragment = []\<rparr>
         else Inl (External ''parse error''))"

definition testString :: "net_url \<Rightarrow> string" where
  "testString u =
     Scheme u @ ''://'' @ Host u @
     (case Path u of
        [] \<Rightarrow> []
      | c # _ \<Rightarrow> if c = CHR ''/'' then Path u else CHR ''/'' # Path u)"

definition testUrl :: urlpkg where
  "testUrl = \<lparr>Parse = testParse, String = testString\<rparr>"

definition testSys :: sys where
  "testSys =
     \<lparr>url = testUrl,
      gerritClient = (\<lambda>src. Inr (Client src)),
      getVersionChangeRevision = (\<lambda>c ver. Inr (testBuildChange 1, testRevision 1 0)),
      gitConfigArgs = (\<lambda>src. Inr [''config'', ''http.cookieFile'', ''/tmp/cookies'']),
      execGit = testExecGit,
      Create = (\<lambda>path. None),
      MkdirAll = (\<lambda>path. None),
      OpenFile = (\<lambda>path. None),
      Fprintf = (\<lambda>path line. None),
      ReadFile = (\<lambda>path. Inl (External ''no such file'')),
      SetReview = (\<lambda>c changeId revision input. None)\<rparr>"

definition testInRequest :: "inParams \<Rightarrow> InRequest" where
  "testInRequest params =
     \<lparr>DecodeIn = Inr (\<lparr>Url = testGerritUrl, Cookies = []\<rparr>, testInVersion, params),
      TargetDirIn = ''/tmp/build/repo''\<rparr>"

definition testOutRequest :: "outParams \<Rightarrow> OutRequest" where
  "testOutRequest params =
     \<lparr>DecodeOut = Inr (\<lparr>Url = testGerritUrl, Cookies = []\<rparr>, params),
      TargetDirOut = ''/tmp/build''\<rparr>"

definition emptyWorld :: world where
  "emptyWorld =
     \<lparr>gitLog = [], logged = [], files = Map.empty, appended = [], responseMetadata = [],
      responseVersion = None, reviews = [], cleanups = 0\<rparr>"

text \<open>The marker file of \<open>testInVersion\<close>, as \<open>in\<close> leaves it in its target directory.\<close>

definition markerWorld :: world where
  "markerWorld =
     emptyWorld\<lparr>files := [''/tmp/build/repo/.gerrit_version.json'' \<mapsto>
       versionToJSON testInVersion]\<rparr>"

text \<open>A git whose \<open>fetch\<close> exits with a non-zero status; every other command succeeds.\<close>

definition fetchFailsExecGit :: "string list list \<Rightarrow> string list \<Rightarrow> string \<times> error option" where
  "fetchFailsExecGit history args =
     (if ''fetch'' \<in> set args then (''fatal: unable to access'', Some (External ''exit status 128''))
      else ([], None))"

text \<open>A revision that offers \<open>anonymous http\<close> and \<open>ssh\<close>, and no \<open>http\<close>.\<close>

definition anonymousOnly :: RevisionInfo where
  "anonymousOnly =
     \<lparr>PatchSetNumber = 2, Uploader = None, Ref = ''refs/changes/1/1/2'',
      Fetch = [''anonymous http'' \<mapsto>
                 \<lparr>URL = ''http://anon.example.com/p.git'', FetchRef = ''refs/changes/1/1/2''\<rparr>,
               ''ssh'' \<mapsto>
                 \<lparr>URL = ''ssh://example.com/p.git'', FetchRef = ''refs/changes/1/1/2''\<rparr>]\<rparr>"

section \<open>Properties of the fetch-argument resolver\<close>

lemma scanProtocols_find:
  "scanProtocols fetch protos fetchProtocol =
     (case find (\<lambda>proto. fetch proto \<noteq> None) protos of
        Some proto \<Rightarrow> proto
      | None \<Rightarrow> fetchProtocol)"
  by (induction protos) (auto split: option.splits)

lemma find_present:
  "find (\<lambda>proto. fetch proto \<noteq> None) protos = Some proto \<Longrightarrow> \<exists>fi. fetch proto = Some fi"
  by (induction protos) (auto split: if_splits)

lemma resolveFetchArgs_shape:
  "resolveFetchArgs params rev' = Inr fetchArgs \<Longrightarrow> \<exists>u r. fetchArgs = [''fetch'', u, r]"
  by (auto simp: resolveFetchArgs_def Let_def split: if_splits option.splits)

text \<open>
  Claim C1. With neither a fetch URL nor a protocol in the parameters, resolveFetchArgs
  takes the first protocol of the list \<open>["http", "anonymous http"]\<close> that is a key of the
  revision's fetch mapping and returns \<open>fetch\<close> with that protocol's URL and ref. In
  particular \<open>http\<close> is taken whenever it is present (whatever else is), and
  \<open>anonymous http\<close> when \<open>http\<close> is absent and it is present.
\<close>

theorem resolveFetchArgs_default_preference:
  assumes "FetchUrl params = []" and "FetchProtocol params = []"
  shows "(\<forall>proto. find (\<lambda>p. Fetch rev' p \<noteq> None) defaultFetchProtocols = Some proto \<longrightarrow>
            selectProtocol params rev' = proto \<and>
            (\<exists>fi. Fetch rev' proto = Some fi \<and>
                  resolveFetchArgs params rev' = Inr [''fetch'', URL fi, FetchRef fi])) \<and>
         (\<forall>fi. Fetch rev' ''http'' = Some fi \<longrightarrow>
            resolveFetchArgs params rev' = Inr [''fetch'', URL fi, FetchRef fi]) \<and>
         (\<forall>fi. Fetch rev' ''http'' = None \<longrightarrow> Fetch rev' ''anonymous http'' = Some fi \<longrightarrow>
            resolveFetchArgs params rev' = Inr [''fetch'', URL fi, FetchRef fi]) \<and>
         defaultFetchProtocols = [''http'', ''anonymous http'']"
proof (intro conjI allI impI)
  fix proto
  assume f: "find (\<lambda>p. Fetch rev' p \<noteq> None) defaultFetchProtocols = Some proto"
  from assms f show sel: "selectProtocol params rev' = proto"
    by (simp add: selectProtocol_def scanProtocols_find)
  from find_present [OF f] obtain fi where fi: "Fetch rev' proto = Some fi" ..
  with assms sel have "resolveFetchArgs params rev' = Inr [''fetch'', URL fi, FetchRef fi]"
    by (simp add: resolveFetchArgs_def)
  with fi show "\<exists>fi. Fetch rev' proto = Some fi \<and>
      resolveFetchArgs params rev' = Inr [''fetch'', URL fi, FetchRef fi]"
    by blast
next
  fix fi
  assume "Fetch rev' ''http'' = Some fi"
  with assms show "resolveFetchArgs params rev' = Inr [''fetch'', URL fi, FetchRef fi]"
    by (simp add: resolveFetchArgs_def selectProtocol_def defaultFetchProtocols_def)
next
  fix fi
  assume "Fetch rev' ''http'' = None" and "Fetch rev' ''anonymous http'' = Some fi"
  with assms show "resolveFetchArgs params rev' = Inr [''fetch'', URL fi, FetchRef fi]"
    by (simp add: resolveFetchArgs_def selectProtocol_def defaultFetchProtocols_def)
next
  show "defaultFetchProtocols = [''http'', ''anonymous http'']"
    by (simp add: defaultFetchProtocols_def)
qed

text \<open>
  The test harness's revision offers \<open>http\<close> and \<open>fake\<close>: \<open>http\<close> is taken. The revision
  \<open>anonymousOnly\<close> offers \<open>anonymous http\<close> and \<open>ssh\<close>: \<open>anonymous http\<close> is taken.
\<close>

theorem resolveFetchArgs_default_preference_witness:
  "resolveFetchArgs \<lparr>FetchProtocol = [], FetchUrl = []\<rparr> (testRevision 1 0) =
     Inr [''fetch'', ''http://localhost:8080/testproject.git'', ''refs/changes/1/1/1''] \<and>
   selectProtocol \<lparr>FetchProtocol = [], FetchUrl = []\<rparr> anonymousOnly = ''anonymous http'' \<and>
   resolveFetchArgs \<lparr>FetchProtocol = [], FetchUrl = []\<rparr> anonymousOnly =
     Inr [''fetch'', ''http://anon.example.com/p.git'', ''refs/changes/1/1/2'']"
proof -
  let ?p = "\<lparr>FetchProtocol = [], FetchUrl = []\<rparr>"
  have a: "FetchUrl ?p = []" and b: "FetchProtocol ?p = []" by simp_all
  note t1 = resolveFetchArgs_default_preference [OF a b, of "testRevision 1 0"]
  note t2 = resolveFetchArgs_default_preference [OF a b, of anonymousOnly]
  have h: "Fetch (testRevision 1 0) ''http'' =
      Some \<lparr>URL = ''http://localhost:8080/testproject.git'', FetchRef = ''refs/changes/1/1/1''\<rparr>"
    by (simp add: testRevision_def testGerritUrl_def showInt_def showNat.simps digit_def Let_def)
  have f: "find (\<lambda>p. Fetch anonymousOnly p \<noteq> None) defaultFetchProtocols =
      Some ''anonymous http''"
    by (simp add: anonymousOnly_def defaultFetchProtocols_def)
  have g: "Fetch anonymousOnly ''anonymous http'' =
      Some \<lparr>URL = ''http://anon.example.com/p.git'', FetchRef = ''refs/changes/1/1/2''\<rparr>"
    by (simp add: anonymousOnly_def)
  from t1 h have 1: "resolveFetchArgs ?p (testRevision 1 0) =
     Inr [''fetch'', ''http://localhost:8080/testproject.git'', ''refs/changes/1/1/1'']"
    by force
  from t2 f g have 2: "selectProtocol ?p anonymousOnly = ''anonymous http'' \<and>
     resolveFetchArgs ?p anonymousOnly =
       Inr [''fetch'', ''http://anon.example.com/p.git'', ''refs/changes/1/1/2'']"
    by force
  from 1 2 show ?thesis by simp
qed

text \<open>
  Claim C2. With no fetch URL in the parameters, the protocol looked up is the one the
  parameters name, or else the first of the preference list present in the mapping, or else
  the empty name; when the mapping has no entry for it, resolveFetchArgs returns the error
  \<open>no fetch info for protocol\<close> carrying that name, and so no URL and ref of any other
  protocol.
\<close>

theorem resolveFetchArgs_missing_protocol:
  assumes "FetchUrl params = []"
  shows "(Fetch rev' (selectProtocol params rev') = None \<longrightarrow>
            resolveFetchArgs params rev' = Inl (NoFetchInfo (selectProtocol params rev'))) \<and>
         (FetchProtocol params \<noteq> [] \<longrightarrow> selectProtocol params rev' = FetchProtocol params) \<and>
         (FetchProtocol params = [] \<longrightarrow>
            selectProtocol params rev' =
              (case find (\<lambda>p. Fetch rev' p \<noteq> None) defaultFetchProtocols of
                 Some proto \<Rightarrow> proto
               | None \<Rightarrow> []))"
  using assms
  by (simp add: resolveFetchArgs_def selectProtocol_def scanProtocols_find)

text \<open>
  The test harness's revision has no \<open>ssh\<close> entry: asking for \<open>ssh\<close> fails, although
  \<open>http\<close> is there. It has no preferred protocol's sibling either: a revision without any
  entry fails with the empty protocol name.
\<close>

theorem resolveFetchArgs_missing_protocol_witness:
  "resolveFetchArgs \<lparr>FetchProtocol = ''ssh'', FetchUrl = []\<rparr> (testRevision 1 0) =
     Inl (NoFetchInfo ''ssh'') \<and>
   resolveFetchArgs \<lparr>FetchProtocol = [], FetchUrl = []\<rparr>
       ((testRevision 1 0)\<lparr>Fetch := Map.empty\<rparr>) =
     Inl (NoFetchInfo [])"
proof -
  let ?p = "\<lparr>FetchProtocol = ''ssh'', FetchUrl = []\<rparr>"
  let ?q = "\<lparr>FetchProtocol = [], FetchUrl = []\<rparr>"
  let ?r = "(testRevision 1 0)\<lparr>Fetch := Map.empty\<rparr>"
  have a: "FetchUrl ?p = []" and b: "FetchUrl ?q = []" by simp_all
  note t1 = resolveFetchArgs_missing_protocol [OF a, of "testRevision 1 0"]
  note t2 = resolveFetchArgs_missing_protocol [OF b, of ?r]
  from t1 have s1: "selectProtocol ?p (testRevision 1 0) = ''ssh''" by simp
  have n1: "Fetch (testRevision 1 0) ''ssh'' = None"
    by (simp add: testRevision_def Let_def)
  from t2 have s2: "selectProtocol ?q ?r = []"
    by (simp add: defaultFetchProtocols_def)
  have n2: "Fetch ?r [] = None" by simp
  from t1 s1 n1 have 1: "resolveFetchArgs ?p (testRevision 1 0) = Inl (NoFetchInfo ''ssh'')"
    by simp
  from t2 s2 n2 have 2: "resolveFetchArgs ?q ?r = Inl (NoFetchInfo [])"
    by simp
  from 1 2 show ?thesis by simp
qed

text \<open>
  Claim C3. With a non-empty fetch URL in the parameters, resolveFetchArgs succeeds with
  \<open>fetch\<close>, that URL and the revision's own ref, whatever the protocol parameter and the
  fetch mapping are.
\<close>

theorem resolveFetchArgs_explicit_url:
  assumes "FetchUrl params \<noteq> []"
  shows "resolveFetchArgs params rev' = Inr [''fetch'', FetchUrl params, Ref rev']"
  using assms by (simp add: resolveFetchArgs_def)

text \<open>The case of the test \<open>TestInGitFetchUrl\<close>, with a protocol the revision lacks.\<close>

theorem resolveFetchArgs_explicit_url_witness:
  "resolveFetchArgs \<lparr>FetchProtocol = ''ssh'', FetchUrl = ''some://otherurl''\<rparr>
       (testRevision 1 0) =
     Inr [''fetch'', ''some://otherurl'', ''refs/changes/1/1/1'']"
proof -
  let ?p = "\<lparr>FetchProtocol = ''ssh'', FetchUrl = ''some://otherurl''\<rparr>"
  have a: "FetchUrl ?p \<noteq> []" by simp
  have r: "Ref (testRevision 1 0) = ''refs/changes/1/1/1''"
    by (simp add: testRevision_def Let_def showInt_def showNat.simps digit_def)
  from resolveFetchArgs_explicit_url [OF a, of "testRevision 1 0"] r show ?thesis by simp
qed

section \<open>Properties of the revision-link builder\<close>




















section \<open>Properties of Version equality\<close>

text \<open>
  Claim C9. Two Versions are equal exactly when their change identifiers and their revision
  identifiers are equal; replacing the creation timestamps of either changes nothing.
\<close>

theorem Equal_change_and_revision:
  "Equal v other = (ChangeId v = ChangeId other \<and> Revision v = Revision other) \<and>
   Equal (v\<lparr>Created := t\<rparr>) (other\<lparr>Created := t'\<rparr>) = Equal v other"
  by (simp add: Equal_def)

section \<open>Effects of the steps of the in operation\<close>

lemma git_elim:
  assumes "git s dir args w = (r, w')"
  obtains out e where
    "execGit s (map fst (gitLog w)) ([''-C'', dir] @ args) = (out, e)"
    "r = map_option GitFailed e"
    "w' = w\<lparr>gitLog := gitLog w @ [([''-C'', dir] @ args, e)],
           logged := logged w @ [LogGit ([''-C'', dir] @ args), LogGitOutput out]\<rparr>"
proof -
  obtain out e where x: "execGit s (map fst (gitLog w)) ([''-C'', dir] @ args) = (out, e)"
    by (cases "execGit s (map fst (gitLog w)) ([''-C'', dir] @ args)")
  with assms have "r = map_option GitFailed e"
    and "w' = w\<lparr>gitLog := gitLog w @ [([''-C'', dir] @ args, e)],
           logged := logged w @ [LogGit ([''-C'', dir] @ args), LogGitOutput out]\<rparr>"
    by (auto simp: git_def Let_def logPrintf_def split: option.splits)
  with x show thesis by (rule that)
qed

lemma git_effect:
  assumes "git s dir args w = (r, w')"
  shows "\<exists>e. (r = None \<and> e = None \<or> (\<exists>x. r = Some (GitFailed x) \<and> e = Some x)) \<and>
           gitLog w' = gitLog w @ [([''-C'', dir] @ args, e)] \<and>
           files w' = files w \<and> appended w' = appended w \<and>
           responseMetadata w' = responseMetadata w"
  using assms by (elim git_elim) auto

lemma inCheckout_effect:
  assumes "inCheckout s dir src fetchArgs w = (r, w')"
  shows "\<exists>new. gitLog w' = gitLog w @ new \<and>
           files w' = files w \<and> appended w' = appended w \<and>
           responseMetadata w' = responseMetadata w \<and>
           (r = None \<longrightarrow> (\<exists>configArgs. gitConfigArgs s src = Inr configArgs \<and>
              new = map (\<lambda>args. ([''-C'', dir] @ args, None))
                [[''init''], [''config'', ''color.ui'', ''always''], configArgs, fetchArgs,
                 [''checkout'', ''FETCH_HEAD'']])) \<and>
           (\<forall>args e. (args, Some e) \<in> set new \<longrightarrow>
              r = Some (GitFailed e) \<and> last new = (args, Some e))"
proof -
  obtain r1 w1 where g1: "git s dir [''init''] w = (r1, w1)" by fastforce
  obtain r2 w2 where g2: "git s dir [''config'', ''color.ui'', ''always''] w1 = (r2, w2)" by fastforce
  note e1 = git_effect [OF g1] and e2 = git_effect [OF g2]
  show ?thesis
  proof (cases "r1 = None \<and> r2 = None")
    case False
    with assms g1 g2 e1 e2 show ?thesis
      by (auto simp: inCheckout_def split: option.splits)
  next
    case True
    note r12 = this
    show ?thesis
    proof (cases "gitConfigArgs s src")
      case (Inl err)
      with assms g1 g2 e1 e2 r12 show ?thesis
        by (auto simp: inCheckout_def split: option.splits)
    next
      case (Inr configArgs)
      obtain r3 w3 where g3: "git s dir configArgs w2 = (r3, w3)" by fastforce
      obtain r4 w4 where g4: "git s dir fetchArgs w3 = (r4, w4)" by fastforce
      obtain r5 w5 where g5: "git s dir [''checkout'', ''FETCH_HEAD''] w4 = (r5, w5)" by fastforce
      note e3 = git_effect [OF g3] and e4 = git_effect [OF g4] and e5 = git_effect [OF g5]
      show ?thesis
      proof (cases r3)
        case (Some a)
        with assms g1 g2 g3 e1 e2 e3 r12 Inr show ?thesis
          by (auto simp: inCheckout_def split: option.splits)
      next
        case None
        note r3 = this
        show ?thesis
        proof (cases r4)
          case (Some a)
          with assms g1 g2 g3 g4 e1 e2 e3 e4 r12 r3 Inr show ?thesis
            by (auto simp: inCheckout_def split: option.splits)
        next
          case None
          with assms g1 g2 g3 g4 g5 e1 e2 e3 e4 e5 r12 r3 Inr show ?thesis
            by (auto simp: inCheckout_def split: option.splits)
        qed
      qed
    qed
  qed
qed

lemma inMetadata_effect:
  "gitLog (inMetadata s src change rev' w) = gitLog w \<and>
   files (inMetadata s src change rev' w) = files w \<and>
   appended (inMetadata s src change rev' w) = appended w"
  by (simp add: inMetadata_def Let_def AddResponseMetadata_def logPrintf_def
      split: option.splits sum.splits)

lemma inExclude_effect:
  "gitLog (inExclude s dir p w) = gitLog w \<and> files (inExclude s dir p w) = files w"
  by (simp add: inExclude_def Let_def logPrintf_def split: option.splits)

lemma inExclude_logged:
  "logged (inExclude s dir p w) =
     logged w @
     (case MkdirAll s (Dir (Join [dir, ''.git'', ''info'', ''exclude''])) of
        Some err \<Rightarrow> [LogErrorAddingExclude p (Join [dir, ''.git'', ''info'', ''exclude'']) err]
      | None \<Rightarrow> [])"
  by (simp add: inExclude_def Let_def logPrintf_def split: option.splits)

lemma inMarker_effect:
  "inMarker s dir ver w = (r, w') \<Longrightarrow> gitLog w' = gitLog w"
  by (auto simp: inMarker_def WriteToFile_def Let_def inExclude_effect split: option.splits)

lemma cleanup_effect:
  "gitLog (cleanup w) = gitLog w \<and> files (cleanup w) = files w \<and>
   responseMetadata (cleanup w) = responseMetadata w \<and> appended (cleanup w) = appended w \<and>
   logged (cleanup w) = logged w \<and> reviews (cleanup w) = reviews w \<and>
   responseVersion (cleanup w) = responseVersion w"
  by (simp add: cleanup_def)

lemma inBody_effect:
  assumes "inBody s req src ver params w = (r, w')"
  shows "\<exists>new. gitLog w' = gitLog w @ new \<and>
     (r = None \<longrightarrow> (\<exists>c change rev' u ref configArgs.
        gerritClient s src = Inr c \<and>
        getVersionChangeRevision s c ver = Inr (change, rev') \<and>
        resolveFetchArgs params rev' = Inr [''fetch'', u, ref] \<and>
        gitConfigArgs s src = Inr configArgs \<and>
        new = map (\<lambda>args. ([''-C'', TargetDirIn req] @ args, None))
          [[''init''], [''config'', ''color.ui'', ''always''], configArgs,
           [''fetch'', u, ref], [''checkout'', ''FETCH_HEAD'']])) \<and>
     (\<forall>args e. (args, Some e) \<in> set new \<longrightarrow>
        r = Some (GitFailed e) \<and> last new = (args, Some e) \<and>
        files w' = files w \<and> responseMetadata w' = responseMetadata w \<and>
        appended w' = appended w)"
proof (cases "gerritClient s src")
  case (Inl err)
  with assms show ?thesis by (auto simp: inBody_def)
next
  case c: (Inr c)
  show ?thesis
  proof (cases "getVersionChangeRevision s c ver")
    case (Inl err)
    with assms c show ?thesis by (auto simp: inBody_def)
  next
    case (Inr cr)
    then obtain change rev' where cr: "getVersionChangeRevision s c ver = Inr (change, rev')"
      by (cases cr) simp
    show ?thesis
    proof (cases "resolveFetchArgs params rev'")
      case (Inl err)
      with assms c cr show ?thesis by (auto simp: inBody_def)
    next
      case (Inr fetchArgs)
      from resolveFetchArgs_shape [OF Inr] obtain u ref
        where fa: "fetchArgs = [''fetch'', u, ref]" by blast
      obtain r1 w1 where co: "inCheckout s (TargetDirIn req) src fetchArgs w = (r1, w1)"
        by fastforce
      from inCheckout_effect [OF co] obtain new where new:
        "gitLog w1 = gitLog w @ new" "files w1 = files w" "appended w1 = appended w"
        "responseMetadata w1 = responseMetadata w"
        "r1 = None \<longrightarrow> (\<exists>configArgs. gitConfigArgs s src = Inr configArgs \<and>
              new = map (\<lambda>args. ([''-C'', TargetDirIn req] @ args, None))
                [[''init''], [''config'', ''color.ui'', ''always''], configArgs, fetchArgs,
                 [''checkout'', ''FETCH_HEAD'']])"
        "\<forall>args e. (args, Some e) \<in> set new \<longrightarrow>
              r1 = Some (GitFailed e) \<and> last new = (args, Some e)"
        by blast
      show ?thesis
      proof (cases r1)
        case (Some err)
        with assms c cr Inr co have "r = r1" "w' = w1" by (simp_all add: inBody_def)
        with new Some show ?thesis by auto
      next
        case None
        with assms c cr Inr co
        have m: "inMarker s (TargetDirIn req) ver (inMetadata s src change rev' w1) = (r, w')"
          by (simp add: inBody_def)
        from inMarker_effect [OF m] have g: "gitLog w' = gitLog w1"
          by (simp add: inMetadata_effect)
        from new(5) None obtain configArgs where ca: "gitConfigArgs s src = Inr configArgs"
          and n: "new = map (\<lambda>args. ([''-C'', TargetDirIn req] @ args, None))
                [[''init''], [''config'', ''color.ui'', ''always''], configArgs, fetchArgs,
                 [''checkout'', ''FETCH_HEAD'']]" by blast
        have noerr: "\<And>args e. (args, Some e) \<notin> set new" using n by auto
        show ?thesis
        proof (intro exI [of _ new] conjI allI impI)
          show "gitLog w' = gitLog w @ new" using g new(1) by simp
        next
          assume "r = None"
          show "\<exists>c change rev' u ref configArgs.
            gerritClient s src = Inr c \<and>
            getVersionChangeRevision s c ver = Inr (change, rev') \<and>
            resolveFetchArgs params rev' = Inr [''fetch'', u, ref] \<and>
            gitConfigArgs s src = Inr configArgs \<and>
            new = map (\<lambda>args. ([''-C'', TargetDirIn req] @ args, None))
              [[''init''], [''config'', ''color.ui'', ''always''], configArgs,
               [''fetch'', u, ref], [''checkout'', ''FETCH_HEAD'']]"
            using c cr Inr fa ca n by blast
        qed (use noerr in blast)+
      qed
    qed
  qed
qed

section \<open>The git processes of the in operation\<close>

text \<open>
  Claim C7. The git processes an invocation of \<open>in\<close> runs are appended to \<open>gitLog\<close>. When
  \<open>in\<close> succeeds they are, in this order and each in the target directory and with exit
  status zero: \<open>init\<close>; \<open>config color.ui always\<close>; the git configuration arguments of the
  authentication manager; \<open>fetch <url> <ref>\<close> with the resolved fetch arguments;
  \<open>checkout FETCH_HEAD\<close>. In every invocation, a git process that exits with an error makes
  \<open>in\<close> return the error \<open>git failed\<close> wrapping it, is the last process run, and leaves
  the marker file, the exclude file and the response metadata untouched.
\<close>

theorem in_git_order:
  assumes "inFunc s req w = (result, w')"
  shows "\<exists>new. gitLog w' = gitLog w @ new \<and>
     (result = None \<longrightarrow> (\<exists>src ver params c change rev' u ref configArgs.
        DecodeIn req = Inr (src, ver, params) \<and>
        gerritClient s src = Inr c \<and>
        getVersionChangeRevision s c ver = Inr (change, rev') \<and>
        resolveFetchArgs params rev' = Inr [''fetch'', u, ref] \<and>
        gitConfigArgs s src = Inr configArgs \<and>
        new = map (\<lambda>args. ([''-C'', TargetDirIn req] @ args, None))
          [[''init''], [''config'', ''color.ui'', ''always''], configArgs,
           [''fetch'', u, ref], [''checkout'', ''FETCH_HEAD'']])) \<and>
     (\<forall>args e. (args, Some e) \<in> set new \<longrightarrow>
        result = Some (GitFailed e) \<and> last new = (args, Some e) \<and>
        files w' = files w \<and> responseMetadata w' = responseMetadata w \<and>
        appended w' = appended w)"
proof (cases "DecodeIn req")
  case (Inl err)
  with assms show ?thesis by (auto simp: inFunc_def cleanup_effect)
next
  case (Inr d)
  then obtain src ver params where d: "DecodeIn req = Inr (src, ver, params)"
    by (cases d) auto
  obtain r1 w1 where b: "inBody s req src ver params w = (r1, w1)" by fastforce
  with assms d have rw: "result = r1" "w' = cleanup w1" by (simp_all add: inFunc_def)
  from inBody_effect [OF b] obtain new where new: "gitLog w1 = gitLog w @ new"
     "r1 = None \<longrightarrow> (\<exists>c change rev' u ref configArgs.
        gerritClient s src = Inr c \<and>
        getVersionChangeRevision s c ver = Inr (change, rev') \<and>
        resolveFetchArgs params rev' = Inr [''fetch'', u, ref] \<and>
        gitConfigArgs s src = Inr configArgs \<and>
        new = map (\<lambda>args. ([''-C'', TargetDirIn req] @ args, None))
          [[''init''], [''config'', ''color.ui'', ''always''], configArgs,
           [''fetch'', u, ref], [''checkout'', ''FETCH_HEAD'']])"
     "\<forall>args e. (args, Some e) \<in> set new \<longrightarrow>
        r1 = Some (GitFailed e) \<and> last new = (args, Some e) \<and>
        files w1 = files w \<and> responseMetadata w1 = responseMetadata w \<and>
        appended w1 = appended w"
    by blast
  show ?thesis
  proof (intro exI [of _ new] conjI impI)
    show "gitLog w' = gitLog w @ new" using new(1) rw by (simp add: cleanup_effect)
  next
    assume "result = None"
    with rw new(2) d show "\<exists>src ver params c change rev' u ref configArgs.
        DecodeIn req = Inr (src, ver, params) \<and>
        gerritClient s src = Inr c \<and>
        getVersionChangeRevision s c ver = Inr (change, rev') \<and>
        resolveFetchArgs params rev' = Inr [''fetch'', u, ref] \<and>
        gitConfigArgs s src = Inr configArgs \<and>
        new = map (\<lambda>args. ([''-C'', TargetDirIn req] @ args, None))
          [[''init''], [''config'', ''color.ui'', ''always''], configArgs,
           [''fetch'', u, ref], [''checkout'', ''FETCH_HEAD'']]"
      by blast
  next
    show "\<forall>args e. (args, Some e) \<in> set new \<longrightarrow>
        result = Some (GitFailed e) \<and> last new = (args, Some e) \<and>
        files w' = files w \<and> responseMetadata w' = responseMetadata w \<and>
        appended w' = appended w"
      using new(3) rw by (simp add: cleanup_effect)
  qed
qed

text \<open>
  The run of the test harness, and the same run with a git whose \<open>fetch\<close> fails.
\<close>

theorem in_git_order_witness:
  "(case inFunc testSys (testInRequest \<lparr>FetchProtocol = [], FetchUrl = []\<rparr>) emptyWorld of
      (result, w') \<Rightarrow>
        result = None \<and>
        gitLog w' =
          [([''-C'', ''/tmp/build/repo'', ''init''], None),
           ([''-C'', ''/tmp/build/repo'', ''config'', ''color.ui'', ''always''], None),
           ([''-C'', ''/tmp/build/repo'', ''config'', ''http.cookieFile'', ''/tmp/cookies''], None),
           ([''-C'', ''/tmp/build/repo'', ''fetch'', ''http://localhost:8080/testproject.git'',
             ''refs/changes/1/1/1''], None),
           ([''-C'', ''/tmp/build/repo'', ''checkout'', ''FETCH_HEAD''], None)]) \<and>
   (case inFunc (testSys\<lparr>execGit := fetchFailsExecGit\<rparr>)
          (testInRequest \<lparr>FetchProtocol = [], FetchUrl = []\<rparr>) emptyWorld of
      (result, w') \<Rightarrow>
        result = Some (GitFailed (External ''exit status 128'')) \<and>
        files w' ''/tmp/build/repo/.gerrit_version.json'' = None \<and>
        responseMetadata w' = [])"
proof -
  let ?params = "\<lparr>FetchProtocol = [], FetchUrl = []\<rparr>"
  let ?req = "testInRequest ?params"
  let ?bad = "testSys\<lparr>execGit := fetchFailsExecGit\<rparr>"
  have e: "gitLog emptyWorld = []" "files emptyWorld = Map.empty" "responseMetadata emptyWorld = []"
    by (simp_all add: emptyWorld_def)
  have dir: "TargetDirIn ?req = ''/tmp/build/repo''" by (simp add: testInRequest_def)
  obtain r1 w1 where run1: "inFunc testSys ?req emptyWorld = (r1, w1)" by fastforce
  have "fst (inFunc testSys ?req emptyWorld) = None" by code_simp
  with run1 have r1: "r1 = None" by simp
  from in_git_order [OF run1] r1 e(1) obtain src ver params c change rev' u ref configArgs
    where d: "DecodeIn ?req = Inr (src, ver, params)"
      and g: "getVersionChangeRevision testSys c ver = Inr (change, rev')"
      and f: "resolveFetchArgs params rev' = Inr [''fetch'', u, ref]"
      and ca: "gitConfigArgs testSys src = Inr configArgs"
      and l: "gitLog w1 = map (\<lambda>args. ([''-C'', TargetDirIn ?req] @ args, None))
          [[''init''], [''config'', ''color.ui'', ''always''], configArgs,
           [''fetch'', u, ref], [''checkout'', ''FETCH_HEAD'']]"
    by auto
  from d have p: "params = ?params" by (simp add: testInRequest_def)
  from g have rv: "rev' = testRevision 1 0" by (simp add: testSys_def)
  have "resolveFetchArgs ?params (testRevision 1 0) =
      Inr [''fetch'', ''http://localhost:8080/testproject.git'', ''refs/changes/1/1/1'']"
    by code_simp
  with f p rv have u: "u = ''http://localhost:8080/testproject.git''"
    and ref: "ref = ''refs/changes/1/1/1''" by simp_all
  from ca have c: "configArgs = [''config'', ''http.cookieFile'', ''/tmp/cookies'']"
    by (simp add: testSys_def)
  from l u ref c dir have 1: "gitLog w1 =
          [([''-C'', ''/tmp/build/repo'', ''init''], None),
           ([''-C'', ''/tmp/build/repo'', ''config'', ''color.ui'', ''always''], None),
           ([''-C'', ''/tmp/build/repo'', ''config'', ''http.cookieFile'', ''/tmp/cookies''], None),
           ([''-C'', ''/tmp/build/repo'', ''fetch'', ''http://localhost:8080/testproject.git'',
             ''refs/changes/1/1/1''], None),
           ([''-C'', ''/tmp/build/repo'', ''checkout'', ''FETCH_HEAD''], None)]"
    by simp
  obtain r2 w2 where run2: "inFunc ?bad ?req emptyWorld = (r2, w2)" by fastforce
  have "gitLog (snd (inFunc ?bad ?req emptyWorld)) =
          [([''-C'', ''/tmp/build/repo'', ''init''], None),
           ([''-C'', ''/tmp/build/repo'', ''config'', ''color.ui'', ''always''], None),
           ([''-C'', ''/tmp/build/repo'', ''config'', ''http.cookieFile'', ''/tmp/cookies''], None),
           ([''-C'', ''/tmp/build/repo'', ''fetch'', ''http://localhost:8080/testproject.git'',
             ''refs/changes/1/1/1''], Some (External ''exit status 128''))]"
    by code_simp
  with run2 have l2: "gitLog w2 =
          [([''-C'', ''/tmp/build/repo'', ''init''], None),
           ([''-C'', ''/tmp/build/repo'', ''config'', ''color.ui'', ''always''], None),
           ([''-C'', ''/tmp/build/repo'', ''config'', ''http.cookieFile'', ''/tmp/cookies''], None),
           ([''-C'', ''/tmp/build/repo'', ''fetch'', ''http://localhost:8080/testproject.git'',
             ''refs/changes/1/1/1''], Some (External ''exit status 128''))]"
    by simp
  from in_git_order [OF run2] e(1) l2 have
    "r2 = Some (GitFailed (External ''exit status 128'')) \<and> files w2 = files emptyWorld \<and>
     responseMetadata w2 = responseMetadata emptyWorld"
    by auto
  with e have 2: "r2 = Some (GitFailed (External ''exit status 128'')) \<and>
     files w2 ''/tmp/build/repo/.gerrit_version.json'' = None \<and> responseMetadata w2 = []"
    by simp
  from run1 r1 1 run2 2 show ?thesis by simp
qed

section \<open>The marker file between in and out\<close>

lemma versionFromJSON_versionToJSON: "versionFromJSON (versionToJSON v) = Inr v"
  by (simp add: versionFromJSON_def versionToJSON_def)

lemma ReadFromFile_WriteToFile:
  "WriteToFile s v path w = (None, w') \<Longrightarrow> ReadFromFile path w' = Inr v"
  by (auto simp: WriteToFile_def ReadFromFile_def versionFromJSON_versionToJSON
      split: option.splits)

lemma ReadFromFile_cong: "files w = files w' \<Longrightarrow> ReadFromFile path w = ReadFromFile path w'"
  by (simp add: ReadFromFile_def)

lemma ReadFromFile_inMarker:
  assumes "inMarker s dir v w = (None, w')"
  shows "ReadFromFile (Join [dir, gerritVersionFilename]) w' = Inr v"
proof -
  let ?p = "Join [dir, gerritVersionFilename]"
  obtain r w1 where wr: "WriteToFile s v ?p w = (r, w1)" by (cases "WriteToFile s v ?p w")
  with assms have r: "r = None" and w': "w' = inExclude s dir ?p w1"
    by (auto simp: inMarker_def Let_def split: option.splits)
  from wr r have "ReadFromFile ?p w1 = Inr v" by (simp add: ReadFromFile_WriteToFile)
  moreover have "ReadFromFile ?p w' = ReadFromFile ?p w1"
    unfolding w' by (rule ReadFromFile_cong) (simp add: inExclude_effect)
  ultimately show ?thesis by simp
qed

lemma ReadFromFile_inBody:
  assumes "inBody s req src ver params w = (None, w')"
  shows "ReadFromFile (Join [TargetDirIn req, gerritVersionFilename]) w' = Inr ver"
  using assms
  by (auto simp: inBody_def ReadFromFile_inMarker split: sum.splits prod.splits option.splits)

lemma ReadFromFile_inFunc:
  assumes "inFunc s req w = (None, w')" and "DecodeIn req = Inr (src, ver, params)"
  shows "ReadFromFile (Join [TargetDirIn req, gerritVersionFilename]) w' = Inr ver"
proof -
  obtain r1 w1 where b: "inBody s req src ver params w = (r1, w1)" by fastforce
  with assms have "r1 = None" and w': "w' = cleanup w1" by (simp_all add: inFunc_def)
  with b have "ReadFromFile (Join [TargetDirIn req, gerritVersionFilename]) w1 = Inr ver"
    by (simp add: ReadFromFile_inBody)
  moreover have "ReadFromFile (Join [TargetDirIn req, gerritVersionFilename]) w' =
      ReadFromFile (Join [TargetDirIn req, gerritVersionFilename]) w1"
    unfolding w' by (rule ReadFromFile_cong) (simp add: cleanup_effect)
  ultimately show ?thesis by simp
qed

lemma outMessage_effect:
  "outMessage s req params w = (m, w') \<Longrightarrow>
     responseVersion w' = responseVersion w \<and> reviews w' = reviews w \<and> files w' = files w"
  by (auto simp: outMessage_def Let_def logPrintf_def split: if_splits sum.splits)

lemma outSendReview_effect:
  "outSendReview s src ver params message w = (r, w') \<Longrightarrow>
     responseVersion w' = responseVersion w \<and> logged w' = logged w"
  by (auto simp: outSendReview_def Let_def split: sum.splits option.splits)

lemma outBody_responseVersion:
  assumes "Repository params \<noteq> []"
    and "ReadFromFile (Join [TargetDirOut req, Repository params, gerritVersionFilename]) w = Inr v"
    and "outBody s req src params w = (r, w')"
  shows "responseVersion w' = Some v"
proof -
  obtain m w1 where om: "outMessage s req params (SetResponseVersion v w) = (m, w1)"
    by fastforce
  from outMessage_effect [OF om] have rv: "responseVersion w1 = Some v"
    by (simp add: SetResponseVersion_def)
  show ?thesis
  proof (cases m)
    case (Inl err)
    with assms om rv show ?thesis by (simp add: outBody_def Let_def)
  next
    case (Inr message)
    with assms om have "outSendReview s src v params message w1 = (r, w')"
      by (simp add: outBody_def Let_def)
    from outSendReview_effect [OF this] rv show ?thesis by simp
  qed
qed

text \<open>
  Claim C4. Reading a marker file that WriteToFile has written gives a Version equal to the
  written one. So it is between the two operations: when \<open>in\<close> succeeds on a version and
  \<open>out\<close> is pointed at the same marker path, \<open>out\<close> reads a Version equal to that version
  and makes it the response version.
\<close>

theorem marker_roundtrip:
  "(\<forall>w'. WriteToFile s v path w = (None, w') \<longrightarrow>
      (\<exists>v'. ReadFromFile path w' = Inr v' \<and> Equal v v')) \<and>
   (\<forall>src ver params w1 osrc oparams result w2.
      DecodeIn req = Inr (src, ver, params) \<longrightarrow> inFunc s req w = (None, w1) \<longrightarrow>
      DecodeOut oreq = Inr (osrc, oparams) \<longrightarrow> Repository oparams \<noteq> [] \<longrightarrow>
      Join [TargetDirOut oreq, Repository oparams, gerritVersionFilename] =
        Join [TargetDirIn req, gerritVersionFilename] \<longrightarrow>
      outFunc s' oreq w1 = (result, w2) \<longrightarrow>
      (\<exists>v'. ReadFromFile (Join [TargetDirOut oreq, Repository oparams, gerritVersionFilename]) w1
               = Inr v' \<and>
            responseVersion w2 = Some v' \<and> Equal ver v'))"
proof (intro conjI allI impI)
  fix w'
  assume "WriteToFile s v path w = (None, w')"
  then have "ReadFromFile path w' = Inr v" by (rule ReadFromFile_WriteToFile)
  then show "\<exists>v'. ReadFromFile path w' = Inr v' \<and> Equal v v'"
    by (simp add: Equal_def)
next
  fix src ver params w1 osrc oparams result w2
  assume d: "DecodeIn req = Inr (src, ver, params)" and i: "inFunc s req w = (None, w1)"
    and od: "DecodeOut oreq = Inr (osrc, oparams)" and rp: "Repository oparams \<noteq> []"
    and p: "Join [TargetDirOut oreq, Repository oparams, gerritVersionFilename] =
        Join [TargetDirIn req, gerritVersionFilename]"
    and out: "outFunc s' oreq w1 = (result, w2)"
  from ReadFromFile_inFunc [OF i d] p
  have rd: "ReadFromFile (Join [TargetDirOut oreq, Repository oparams, gerritVersionFilename]) w1
      = Inr ver" by simp
  obtain r3 w3 where ob: "outBody s' oreq osrc oparams w1 = (r3, w3)" by fastforce
  with out od have w2: "w2 = cleanup w3" by (simp add: outFunc_def)
  from outBody_responseVersion [OF rp rd ob] have "responseVersion w3 = Some ver" .
  with w2 have "responseVersion w2 = Some ver" by (simp add: cleanup_effect)
  with rd show "\<exists>v'. ReadFromFile
        (Join [TargetDirOut oreq, Repository oparams, gerritVersionFilename]) w1 = Inr v' \<and>
      responseVersion w2 = Some v' \<and> Equal ver v'"
    by (simp add: Equal_def)
qed

text \<open>
  \<open>in\<close> with target directory \<open>/tmp/build/repo\<close>, then \<open>out\<close> with target directory
  \<open>/tmp/build\<close> and repository \<open>repo\<close>.
\<close>

theorem marker_roundtrip_witness:
  "(case inFunc testSys (testInRequest \<lparr>FetchProtocol = [], FetchUrl = []\<rparr>) emptyWorld of
      (result, w1) \<Rightarrow>
        result = None \<and>
        (case outFunc testSys
                (testOutRequest \<lparr>Repository = ''repo'', Message = ''ok'', MessageFile = [],
                   Labels = Map.empty\<rparr>) w1 of
           (result', w2) \<Rightarrow>
             (\<exists>v'. responseVersion w2 = Some v' \<and> Equal testInVersion v')))"
proof -
  let ?req = "testInRequest \<lparr>FetchProtocol = [], FetchUrl = []\<rparr>"
  let ?op = "\<lparr>Repository = ''repo'', Message = ''ok'', MessageFile = [], Labels = Map.empty\<rparr>"
  let ?oreq = "testOutRequest ?op"
  obtain r1 w1 where i: "inFunc testSys ?req emptyWorld = (r1, w1)" by fastforce
  have "fst (inFunc testSys ?req emptyWorld) = None" by code_simp
  with i have r1: "r1 = None" by simp
  obtain r2 w2 where out: "outFunc testSys ?oreq w1 = (r2, w2)" by fastforce
  have d: "DecodeIn ?req = Inr (\<lparr>Url = testGerritUrl, Cookies = []\<rparr>, testInVersion,
      \<lparr>FetchProtocol = [], FetchUrl = []\<rparr>)"
    by (simp add: testInRequest_def)
  have od: "DecodeOut ?oreq = Inr (\<lparr>Url = testGerritUrl, Cookies = []\<rparr>, ?op)"
    by (simp add: testOutRequest_def)
  have rp: "Repository ?op \<noteq> []" by simp
  have p: "Join [TargetDirOut ?oreq, Repository ?op, gerritVersionFilename] =
        Join [TargetDirIn ?req, gerritVersionFilename]"
    by code_simp
  from marker_roundtrip [of testSys _ _ _ ?req ?oreq testSys, THEN conjunct2, rule_format,
      OF d i [unfolded r1] od rp p out]
  have "\<exists>v'. responseVersion w2 = Some v' \<and> Equal testInVersion v'" by blast
  with i r1 out show ?thesis by simp
qed

section \<open>Failures that in only logs\<close>

text \<open>
  Claim C8. A revision link that cannot be built and an exclude file that cannot be extended
  do not abort \<open>in\<close>. The first is logged. The second is logged only when it is
  \<open>os.MkdirAll\<close> that fails (lemma \<open>inExclude_logged\<close>): a failure of \<open>os.OpenFile\<close> or of
  \<open>fmt.Fprintf\<close> lands in the variable declared at line 134 and never reaches the test of
  line 140. In the first run below the exclude file cannot be opened: \<open>in\<close> succeeds, the
  marker file is written, nothing is appended, and the log holds the git lines only. In the
  second run it is the directory that cannot be made: \<open>in\<close> succeeds, nothing is appended,
  and the last line of the log reports it.
\<close>

theorem in_exclude_open_failure_not_logged:
  "(case inFunc (testSys\<lparr>OpenFile := (\<lambda>path. Some (External ''permission denied''))\<rparr>)
          (testInRequest \<lparr>FetchProtocol = [], FetchUrl = []\<rparr>) emptyWorld of
      (result, w') \<Rightarrow>
        result = None \<and>
        files w' ''/tmp/build/repo/.gerrit_version.json'' = Some (versionToJSON testInVersion) \<and>
        appended w' = [] \<and>
        logged w' =
          [LogGit [''-C'', ''/tmp/build/repo'', ''init''], LogGitOutput [],
           LogGit [''-C'', ''/tmp/build/repo'', ''config'', ''color.ui'', ''always''],
           LogGitOutput [],
           LogGit [''-C'', ''/tmp/build/repo'', ''config'', ''http.cookieFile'', ''/tmp/cookies''],
           LogGitOutput [],
           LogGit [''-C'', ''/tmp/build/repo'', ''fetch'',
                   ''http://localhost:8080/testproject.git'', ''refs/changes/1/1/1''],
           LogGitOutput [],
           LogGit [''-C'', ''/tmp/build/repo'', ''checkout'', ''FETCH_HEAD''],
           LogGitOutput []]) \<and>
   (case inFunc (testSys\<lparr>MkdirAll := (\<lambda>path. Some (External ''permission denied''))\<rparr>)
          (testInRequest \<lparr>FetchProtocol = [], FetchUrl = []\<rparr>) emptyWorld of
      (result, w') \<Rightarrow>
        result = None \<and>
        appended w' = [] \<and>
        last (logged w') =
          LogErrorAddingExclude ''/tmp/build/repo/.gerrit_version.json''
            ''/tmp/build/repo/.git/info/exclude'' (External ''permission denied''))"
  by code_simp

section \<open>The review message of the out operation\<close>

text \<open>
  Claim C10. Let the parameters of \<open>out\<close> name a message file that cannot be read. With an
  empty \<open>message\<close> parameter \<open>out\<close> fails and submits no review; where it gets as far as
  the message (a repository is named and the marker file is readable) it logs the read error
  and fails with \<open>no fallback message\<close>. With a non-empty \<open>message\<close> parameter it logs the
  read error and the fallback, and goes on to the review with that message: a client that
  cannot be set up is an error, otherwise exactly one review is submitted, for the change and
  revision of the marker file, with the \<open>message\<close> parameter as its message, and \<open>out\<close>
  returns what the submission returns.
\<close>

theorem out_unreadable_message_file:
  assumes "DecodeOut req = Inr (src, params)"
    and "MessageFile params \<noteq> []"
    and "ReadFile s (Join [TargetDirOut req, MessageFile params]) = Inl err"
    and "outFunc s req w = (result, w')"
  shows "(Message params = [] \<longrightarrow>
            result \<noteq> None \<and> reviews w' = reviews w \<and>
            (\<forall>ver. Repository params \<noteq> [] \<longrightarrow>
               ReadFromFile (Join [TargetDirOut req, Repository params, gerritVersionFilename]) w
                 = Inr ver \<longrightarrow>
               result = Some NoFallbackMessage \<and>
               logged w' = logged w @ [LogErrorReadingMessageFile (MessageFile params) err])) \<and>
         (Message params \<noteq> [] \<longrightarrow>
            (\<forall>ver. Repository params \<noteq> [] \<longrightarrow>
               ReadFromFile (Join [TargetDirOut req, Repository params, gerritVersionFilename]) w
                 = Inr ver \<longrightarrow>
               logged w' = logged w @
                 [LogErrorReadingMessageFile (MessageFile params) err,
                  LogUsingFallbackMessage (Message params)] \<and>
               (\<forall>e. gerritClient s src = Inl e \<longrightarrow>
                  result = Some (ErrorSettingUpGerritClient e) \<and> reviews w' = reviews w) \<and>
               (\<forall>c. gerritClient s src = Inr c \<longrightarrow>
                  reviews w' = reviews w @
                    [(ChangeId ver, Revision ver,
                      \<lparr>ReviewMessage = Message params, ReviewLabels = Labels params\<rparr>)] \<and>
                  result = map_option ErrorSendingReview
                    (SetReview s c (ChangeId ver) (Revision ver)
                      \<lparr>ReviewMessage = Message params, ReviewLabels = Labels params\<rparr>))))"
proof -
  obtain r1 w1 where ob: "outBody s req src params w = (r1, w1)" by fastforce
  with assms have rw: "result = r1" "w' = cleanup w1" by (simp_all add: outFunc_def)
  have m: "\<And>w0. outMessage s req params w0 =
      (let w1 = logPrintf (LogErrorReadingMessageFile (MessageFile params) err) w0
       in if Message params = [] then (Inl NoFallbackMessage, w1)
          else (Inr (Message params), logPrintf (LogUsingFallbackMessage (Message params)) w1))"
    using assms(2,3) by (simp add: outMessage_def Let_def)
  show ?thesis
  proof (cases "Repository params = []")
    case True
    with ob rw show ?thesis by (auto simp: outBody_def cleanup_effect)
  next
    case False
    note rp = this
    show ?thesis
    proof (cases "ReadFromFile (Join [TargetDirOut req, Repository params, gerritVersionFilename]) w")
      case (Inl e)
      with ob rw rp show ?thesis by (auto simp: outBody_def Let_def cleanup_effect)
    next
      case (Inr ver)
      show ?thesis
      proof (cases "Message params = []")
        case True
        with ob rw rp Inr show ?thesis
          by (auto simp: outBody_def Let_def m cleanup_def logPrintf_def SetResponseVersion_def)
      next
        case False
        with ob rw rp Inr show ?thesis
          by (auto simp: outBody_def Let_def m cleanup_def logPrintf_def SetResponseVersion_def
              outSendReview_def split: sum.splits option.splits)
      qed
    qed
  qed
qed

text \<open>
  The test harness has no message file. With the fallback message \<open>out\<close> submits the
  review; without it \<open>out\<close> fails and submits nothing.
\<close>

theorem out_unreadable_message_file_witness:
  "(case outFunc testSys
      (testOutRequest \<lparr>Repository = ''repo'', Message = ''fallback'', MessageFile = ''msg.txt'',
         Labels = [''Verified'' \<mapsto> 1]\<rparr>) markerWorld of
      (result, w') \<Rightarrow>
        result = None \<and>
        reviews w' = [(''Itestchange1'', ''deadbeef0'',
          \<lparr>ReviewMessage = ''fallback'', ReviewLabels = [''Verified'' \<mapsto> 1]\<rparr>)] \<and>
        logged w' = [LogErrorReadingMessageFile ''msg.txt'' (External ''no such file''),
                     LogUsingFallbackMessage ''fallback'']) \<and>
   (case outFunc testSys
      (testOutRequest \<lparr>Repository = ''repo'', Message = [], MessageFile = ''msg.txt'',
         Labels = [''Verified'' \<mapsto> 1]\<rparr>) markerWorld of
      (result, w') \<Rightarrow>
        result = Some NoFallbackMessage \<and> reviews w' = [] \<and>
        logged w' = [LogErrorReadingMessageFile ''msg.txt'' (External ''no such file'')])"
proof -
  let ?src = "\<lparr>Url = testGerritUrl, Cookies = []\<rparr>"
  let ?p = "\<lparr>Repository = ''repo'', Message = ''fallback'', MessageFile = ''msg.txt'',
         Labels = [''Verified'' \<mapsto> 1]\<rparr>"
  let ?q = "\<lparr>Repository = ''repo'', Message = [], MessageFile = ''msg.txt'',
         Labels = [''Verified'' \<mapsto> (1::int)]\<rparr>"
  have path: "Join [''/tmp/build'', ''repo'', gerritVersionFilename] =
      ''/tmp/build/repo/.gerrit_version.json''" by code_simp
  have rd: "\<And>ps. Repository ps = ''repo'' \<Longrightarrow>
      ReadFromFile (Join [TargetDirOut (testOutRequest ps), Repository ps, gerritVersionFilename])
        markerWorld = Inr testInVersion"
    by (simp add: testOutRequest_def path ReadFromFile_def markerWorld_def emptyWorld_def
        versionFromJSON_def versionToJSON_def testInVersion_def)
  have rf: "\<And>ps. ReadFile testSys (Join [TargetDirOut (testOutRequest ps), MessageFile ps]) =
      Inl (External ''no such file'')"
    by (simp add: testSys_def)
  have gc: "gerritClient testSys ?src = Inr (Client ?src)" by (simp add: testSys_def)
  have sr: "\<And>c a b i. SetReview testSys c a b i = None" by (simp add: testSys_def)
  have lg: "logged markerWorld = []" "reviews markerWorld = []"
    by (simp_all add: markerWorld_def emptyWorld_def)
  obtain r1 w1 where o1: "outFunc testSys (testOutRequest ?p) markerWorld = (r1, w1)"
    by fastforce
  obtain r2 w2 where o2: "outFunc testSys (testOutRequest ?q) markerWorld = (r2, w2)"
    by fastforce
  have d1: "DecodeOut (testOutRequest ?p) = Inr (?src, ?p)"
    and d2: "DecodeOut (testOutRequest ?q) = Inr (?src, ?q)"
    by (simp_all add: testOutRequest_def)
  have mf: "MessageFile ?p \<noteq> []" "MessageFile ?q \<noteq> []" by simp_all
  note t1 = out_unreadable_message_file [OF d1 mf(1) rf o1]
  note t2 = out_unreadable_message_file [OF d2 mf(2) rf o2]
  from t1 rd [of ?p] gc sr lg have 1: "r1 = None \<and>
        reviews w1 = [(''Itestchange1'', ''deadbeef0'',
          \<lparr>ReviewMessage = ''fallback'', ReviewLabels = [''Verified'' \<mapsto> 1]\<rparr>)] \<and>
        logged w1 = [LogErrorReadingMessageFile ''msg.txt'' (External ''no such file''),
                     LogUsingFallbackMessage ''fallback'']"
    by (simp add: testInVersion_def)
  from t2 rd [of ?q] lg have 2: "r2 = Some NoFallbackMessage \<and> reviews w2 = [] \<and>
        logged w2 = [LogErrorReadingMessageFile ''msg.txt'' (External ''no such file'')]"
    by simp
  from 1 2 o1 o2 show ?thesis by simp
qed

end
